theory Spec2Isabelle
  imports Main "HOL-Library.Sublist"
begin

section \<open>Python values\<close>

text \<open>
  A Python \<open>str\<close> is a sequence of Unicode code points, so it is modelled as the list of
  its code points. \<open>lit\<close> turns an ASCII literal of the notebook into such a list; the few
  non-ASCII characters of the notebook's literals are written as numbers.
\<close>

type_synonym codepoint = nat
type_synonym str = "codepoint list"

definition lit :: "string \<Rightarrow> str" where
  "lit s = map of_char s"

text \<open>\<open>sep.join(parts)\<close> for a list of strings.\<close>

fun join :: "str \<Rightarrow> str list \<Rightarrow> str" where
  "join sep [] = []"
| "join sep [x] = x"
| "join sep (x # y # ys) = x @ sep @ join sep (y # ys)"

text \<open>
  \<open>str.isspace\<close> for one character: the code points CPython classifies as whitespace
  (bidirectional class WS, B or S, or general category Zs).
\<close>

definition py_isspace :: "codepoint \<Rightarrow> bool" where
  "py_isspace c \<longleftrightarrow>
     (9 \<le> c \<and> c \<le> 13) \<or> (28 \<le> c \<and> c \<le> 32) \<or> c = 133 \<or> c = 160 \<or> c = 5760 \<or>
     (8192 \<le> c \<and> c \<le> 8202) \<or> c = 8232 \<or> c = 8233 \<or> c = 8239 \<or> c = 8287 \<or> c = 12288"

text \<open>\<open>s.strip()\<close>: leading and trailing whitespace removed.\<close>

definition strip :: "str \<Rightarrow> str" where
  "strip s = rev (dropWhile py_isspace (rev (dropWhile py_isspace s)))"

text \<open>
  The values \<open>json.load\<close> and \<open>model_dump(mode="json")\<close> produce. A \<open>dict\<close> keeps its
  insertion order and is an association list; a float is kept as an opaque
  mantissa/exponent pair, no function of the notebook computes with one.
\<close>

datatype json =
    JNull
  | JBool bool
  | JInt int
  | JFloat int int
  | JStr str
  | JList "json list"
  | JDict "(str \<times> json) list"

text \<open>The exceptions the modelled cells can raise.\<close>

datatype error =
    KeyError str
  | TypeError
  | ValidationError
  | AssertionError
  | InputGuardrailTripwireTriggered
  | MaxTurnsExceeded
  | ModelBehaviorError
  | JSONDecodeError
  | AttributeError

section \<open>The structured outputs\<close>

text \<open>The Pydantic models of the notebook, field for field; \<open>Optional\<close> is \<open>option\<close>.\<close>

record InsuranceGuardrailOutput =
  is_insurance_related :: bool
  reasoning :: str

record DamageInfo =
  damage_description :: str
  damaged_parts_list :: "str list"

record EstimatedCost =
  estimated_cost :: str

record Claim =
  report_date :: str
  assigned_adjuster :: str
  other_driver_insurance_company :: "str option"
  other_driver_policy_number :: "str option"
  cross_streets_of_accident :: str
  date_of_incident :: str
  time_of_incident :: str
  number_of_vehicles_involved :: str
  customer_initial_report :: str
  law_enforcement_agency :: "str option"
  law_enforcement_report_id :: "str option"
  damage_description :: "str option"
  estimated_cost :: "str option"
  damaged_parts_list :: "str list option"

record Customer =
  first_name :: str
  last_name :: str
  street_address :: str
  city :: str
  state :: str
  zip_code :: str
  phone_number :: str
  email :: str
  car_year :: str
  car_make :: str
  car_model :: str
  vin :: str
  license_plate :: str
  car_mileage :: str
  car_color :: str
  policy_number :: str

record Shop =
  shop_name :: str
  shop_address :: str
  shop_phone :: str

record Shops =
  shop_one :: "Shop option"
  shop_two :: "Shop option"
  shop_three :: "Shop option"

record InsuranceReport =
  claim_number :: str
  claim :: Claim
  customer :: Customer
  shops :: Shops

section \<open>The vision tool\<close>

text \<open>
  \<open>analyze_vehicle_damage_gpt4v\<close> builds one user message: an \<open>input_text\<close> item holding
  the prompt, followed by one \<open>input_image\<close> item for each URL. The arguments
  \<open>year\<close>, \<open>make\<close> and \<open>model\<close> are \<open>v_year\<close>, \<open>v_make\<close> and \<open>v_model\<close> here.
\<close>

datatype content_item = Input_text str | Input_image str

definition prompt_text :: "str \<Rightarrow> str \<Rightarrow> str \<Rightarrow> str" where
  "prompt_text v_year v_make v_model =
     lit ''Think deeply. Based on these images, create a list of parts that you estimate '' @
     lit ''will need repaired or replaced, as well as a detailed description of the damage '' @
     lit ''to the vehicle. Make sure to think about and include hidden damage that you '' @
     lit ''might not be able to see in the photos, for example camera in the bumper or the '' @
     lit ''batteries the vehicle uses. The vehicle is a '' @ v_year @ lit '' '' @ v_make @
     lit '' '' @ v_model @ lit ''. '' @
     lit ''Return a valid JSON object that includes the following:'' @ [10] @
     lit '' - '' @ [34] @ lit ''damage_description'' @ [34] @
     lit '': a concise summary describing the overall damage to '' @
     lit ''the vehicle.'' @ [10] @
     lit '' - '' @ [34] @ lit ''damaged_parts_list'' @ [34] @
     lit '': a list of parts that need repair or replacement.'' @ [10] @
     lit ''Do NOT include any cost estimates, extra explanations, or any text outside of '' @
     lit ''this JSON object. Follow proper JSON formatting.''"

definition input_content :: "str list \<Rightarrow> str \<Rightarrow> str \<Rightarrow> str \<Rightarrow> content_item list" where
  "input_content image_urls v_year v_make v_model =
     [Input_text (prompt_text v_year v_make v_model)] @ map Input_image image_urls"

text \<open>
  The JSON schema sent with the request: an object with exactly the two properties, both
  required, \<open>additionalProperties\<close> false. \<open>conforms_schema\<close> is what that schema accepts.
\<close>

fun is_JStr :: "json \<Rightarrow> bool" where
  "is_JStr (JStr s) = True"
| "is_JStr _ = False"






section \<open>The guardrail and the agents\<close>

text \<open>
  \<open>insurance_query_guardrail\<close> runs the guardrail agent on the input and wraps its verdict.
  The verdict is the hosted model's; it is the parameter \<open>final_output\<close>.
\<close>

record GuardrailFunctionOutput =
  output_info :: InsuranceGuardrailOutput
  tripwire_triggered :: bool

definition insurance_query_guardrail :: "InsuranceGuardrailOutput \<Rightarrow> GuardrailFunctionOutput" where
  "insurance_query_guardrail final_output =
     \<lparr>output_info = final_output,
      tripwire_triggered = (\<not> is_insurance_related final_output)\<rparr>"

text \<open>
  The four agents of the notebook with what each declares: its tools, its hand-off targets
  (\<open>repair_shop_agent\<close> after the assignment that follows the definitions), its input
  guardrails and its output type.
\<close>

datatype agent =
    claim_orchestrator
  | image_analysis_agent
  | cost_estimation_agent
  | repair_shop_agent

datatype tool = Tool_analyze_vehicle_damage_gpt4v | WebSearchTool

datatype output_type = T_InsuranceReport | T_DamageInfo | T_EstimatedCost | T_Shops

datatype output_value =
    Out_InsuranceReport InsuranceReport
  | Out_DamageInfo DamageInfo
  | Out_EstimatedCost EstimatedCost
  | Out_Shops Shops

fun type_of :: "output_value \<Rightarrow> output_type" where
  "type_of (Out_InsuranceReport r) = T_InsuranceReport"
| "type_of (Out_DamageInfo d) = T_DamageInfo"
| "type_of (Out_EstimatedCost c) = T_EstimatedCost"
| "type_of (Out_Shops s) = T_Shops"

fun tools :: "agent \<Rightarrow> tool list" where
  "tools repair_shop_agent = [WebSearchTool]"
| "tools cost_estimation_agent = []"
| "tools image_analysis_agent = [Tool_analyze_vehicle_damage_gpt4v]"
| "tools claim_orchestrator = []"

fun handoffs :: "agent \<Rightarrow> agent list" where
  "handoffs repair_shop_agent = [claim_orchestrator]"
| "handoffs cost_estimation_agent = [repair_shop_agent]"
| "handoffs image_analysis_agent = [cost_estimation_agent]"
| "handoffs claim_orchestrator = [image_analysis_agent]"

fun agent_output_type :: "agent \<Rightarrow> output_type" where
  "agent_output_type repair_shop_agent = T_Shops"
| "agent_output_type cost_estimation_agent = T_EstimatedCost"
| "agent_output_type image_analysis_agent = T_DamageInfo"
| "agent_output_type claim_orchestrator = T_InsuranceReport"

fun input_guardrails :: "agent \<Rightarrow> (InsuranceGuardrailOutput \<Rightarrow> GuardrailFunctionOutput) list" where
  "input_guardrails claim_orchestrator = [insurance_query_guardrail]"
| "input_guardrails _ = []"

section \<open>The run loop of the agent framework\<close>

text \<open>
  \<open>Runner.run\<close> belongs to the Agents SDK the notebook imports. The model follows the
  loop that SDK documents, over the declarations above. What the hosted language model
  answers in each turn is a parameter: \<open>model_reply n\<close> is its answer in turn \<open>n\<close>, one of
  a tool call, a hand-off, or a final output.
  \<^item> The input guardrails of the starting agent are evaluated; a triggered tripwire raises
    \<open>InputGuardrailTripwireTriggered\<close> and nothing the starting agent may have answered is
    carried out.
  \<^item> A tool call or a hand-off is carried out only if the current agent declares that tool
    or that target; the SDK raises \<open>ModelBehaviorError\<close> otherwise. After a hand-off the
    target is the current agent.
  \<^item> A final output is validated against the current agent's output type and ends the run.
  \<^item> After \<open>DEFAULT_MAX_TURNS\<close> turns the SDK raises \<open>MaxTurnsExceeded\<close>.
  The run records the turns the agents took and the tools they called.
\<close>

datatype response = Call_tool tool | Transfer_to agent | Final_output output_value

datatype event = Agent_turn agent | Tool_call tool

definition DEFAULT_MAX_TURNS :: nat where
  "DEFAULT_MAX_TURNS = 10"

fun run_loop ::
  "(nat \<Rightarrow> response) \<Rightarrow> nat \<Rightarrow> nat \<Rightarrow> agent \<Rightarrow> event list \<Rightarrow> (error + output_value) \<times> event list" where
  "run_loop model_reply 0 turn current tr = (Inl MaxTurnsExceeded, tr)"
| "run_loop model_reply (Suc turns_left) turn current tr =
     (case model_reply turn of
        Call_tool t \<Rightarrow>
          if t \<in> set (tools current)
          then run_loop model_reply turns_left (Suc turn) current
                 (tr @ [Agent_turn current, Tool_call t])
          else (Inl ModelBehaviorError, tr @ [Agent_turn current])
      | Transfer_to target \<Rightarrow>
          if target \<in> set (handoffs current)
          then run_loop model_reply turns_left (Suc turn) target (tr @ [Agent_turn current])
          else (Inl ModelBehaviorError, tr @ [Agent_turn current])
      | Final_output v \<Rightarrow>
          if type_of v = agent_output_type current
          then (Inr v, tr @ [Agent_turn current])
          else (Inl ModelBehaviorError, tr @ [Agent_turn current]))"

definition Runner_run ::
  "agent \<Rightarrow> InsuranceGuardrailOutput \<Rightarrow> (nat \<Rightarrow> response) \<Rightarrow> (error + output_value) \<times> event list" where
  "Runner_run starting_agent guardrail_verdict model_reply =
     (if list_ex (\<lambda>g. tripwire_triggered (g guardrail_verdict)) (input_guardrails starting_agent)
      then (Inl InputGuardrailTripwireTriggered, [])
      else run_loop model_reply DEFAULT_MAX_TURNS 0 starting_agent [])"

section \<open>Loading the customer record\<close>

text \<open>
  \<open>raw[key]\<close>: a \<open>KeyError\<close> when a dict has no such key, a \<open>TypeError\<close> when \<open>raw\<close> is
  not a dict. The keys of a parsed JSON object are distinct, so the first match of
  \<open>map_of\<close> is the only one.
\<close>

fun dict_getitem :: "json \<Rightarrow> str \<Rightarrow> error + json" where
  "dict_getitem (JDict kvs) k = (case map_of kvs k of None \<Rightarrow> Inl (KeyError k) | Some v \<Rightarrow> Inr v)"
| "dict_getitem _ k = Inl TypeError"

definition customer_fields :: "string list" where
  "customer_fields =
     [''first_name'', ''last_name'', ''street_address'', ''city'', ''state'',
      ''zip_code'', ''phone_number'', ''email'', ''car_year'', ''car_make'',
      ''car_model'', ''vin'', ''license_plate'', ''car_mileage'', ''car_color'',
      ''policy_number'']"

text \<open>The dict comprehension: it stops at the first key that is missing.\<close>

fun customer_kwargs :: "json \<Rightarrow> string list \<Rightarrow> error + (str \<times> json) list" where
  "customer_kwargs raw [] = Inr []"
| "customer_kwargs raw (field # rest) =
     (case dict_getitem raw (lit ''customer_'' @ lit field) of
        Inl e \<Rightarrow> Inl e
      | Inr v \<Rightarrow>
          (case customer_kwargs raw rest of
             Inl e \<Rightarrow> Inl e
           | Inr kw \<Rightarrow> Inr ((lit field, v) # kw)))"

text \<open>
  \<open>Customer(**customer_kwargs)\<close>. Every field of \<open>Customer\<close> is declared \<open>str\<close>; Pydantic
  accepts a keyword argument for such a field only if it is a string and raises a
  \<open>ValidationError\<close> for a number, a boolean, \<open>None\<close>, a list or a dict.
\<close>

fun str_kwarg :: "(str \<times> json) list \<Rightarrow> string \<Rightarrow> str option" where
  "str_kwarg kw field =
     (case map_of kw (lit field) of Some (JStr v) \<Rightarrow> Some v | _ \<Rightarrow> None)"

definition kwarg :: "(str \<times> json) list \<Rightarrow> string \<Rightarrow> str" where
  "kwarg kw field = (case str_kwarg kw field of Some v \<Rightarrow> v | None \<Rightarrow> [])"

definition Customer_init :: "(str \<times> json) list \<Rightarrow> error + Customer" where
  "Customer_init kw =
     (if list_all (\<lambda>field. str_kwarg kw field \<noteq> None) customer_fields
      then Inr \<lparr>first_name = kwarg kw ''first_name'', last_name = kwarg kw ''last_name'',
                street_address = kwarg kw ''street_address'', city = kwarg kw ''city'',
                state = kwarg kw ''state'', zip_code = kwarg kw ''zip_code'',
                phone_number = kwarg kw ''phone_number'', email = kwarg kw ''email'',
                car_year = kwarg kw ''car_year'', car_make = kwarg kw ''car_make'',
                car_model = kwarg kw ''car_model'', vin = kwarg kw ''vin'',
                license_plate = kwarg kw ''license_plate'',
                car_mileage = kwarg kw ''car_mileage'', car_color = kwarg kw ''car_color'',
                policy_number = kwarg kw ''policy_number''\<rparr>
      else Inl ValidationError)"

text \<open>
  \<open>parse_customer_info_file\<close>. Its argument here is what \<open>json.load\<close> returned for the
  file; it returns the \<open>Customer\<close> together with that value.
\<close>

definition parse_customer_info_file :: "json \<Rightarrow> error + (Customer \<times> json)" where
  "parse_customer_info_file raw =
     (case customer_kwargs raw customer_fields of
        Inl e \<Rightarrow> Inl e
      | Inr kw \<Rightarrow>
          (case Customer_init kw of
             Inl e \<Rightarrow> Inl e
           | Inr c \<Rightarrow> Inr (c, raw)))"

section \<open>The claim pipeline driver\<close>

text \<open>
  \<open>datetime.date\<close> and its \<open>isoformat\<close>, which prints \<open>%04d-%02d-%02d\<close>; a \<open>date\<close> has a
  year from 1 to 9999, a month from 1 to 12 and a day from 1 to 31, so the year has at most
  four digits and month and day at most two.
\<close>

record date =
  date_year :: nat
  date_month :: nat
  date_day :: nat

definition digit :: "nat \<Rightarrow> codepoint" where
  "digit n = 48 + n mod 10"

definition isoformat :: "date \<Rightarrow> str" where
  "isoformat d =
     [digit (date_year d div 1000), digit (date_year d div 100), digit (date_year d div 10),
      digit (date_year d), 45,
      digit (date_month d div 10), digit (date_month d), 45,
      digit (date_day d div 10), digit (date_day d)]"

text \<open>
  What the driver takes from outside: the parsed claim file, the ids the upload cell
  stored in \<open>uploaded_ids\<close>, the download URL Box gives for a file id, Python's rendering
  of a dict inside an f-string, the verdict of the guardrail model, the replies of the
  agents' models, and the current date.
\<close>

record uploaded =
  base_folder_id :: str
  claims_folder_id :: str
  claim_folder_id :: str
  images_folder_id :: str
  uploaded_image_ids :: "(str \<times> str) list"
  template_file_id :: str

record env =
  claim_info_file :: json
  uploaded_ids :: uploaded
  download_url :: "str \<Rightarrow> str"
  format_dict :: "json \<Rightarrow> str"
  guardrail_verdict :: InsuranceGuardrailOutput
  model_reply :: "nat \<Rightarrow> response"
  today :: date

text \<open>The local variables of \<open>process_insurance_claim\<close> before the orchestrator runs.\<close>

record locals =
  l_customer :: Customer
  l_raw_json :: json
  l_image_urls :: "str list"
  l_customer_address :: str
  l_query :: str

definition make_customer_address :: "Customer \<Rightarrow> str" where
  "make_customer_address c =
     street_address c @ lit '', '' @ city c @ lit '', '' @ state c @ lit '' '' @ zip_code c"

definition make_query :: "Customer \<Rightarrow> str \<Rightarrow> str list \<Rightarrow> str \<Rightarrow> str" where
  "make_query c customer_address image_urls raw_text =
     [10] @ lit ''    Process an insurance claim for a '' @ car_year c @ lit '' '' @
     car_make c @ lit '' '' @ car_model c @ lit '' with damage.'' @ [10] @
     lit ''    Customer is located at: '' @ customer_address @ [10] @
     lit ''    Analyze these damage photos: '' @ join (lit '', '') image_urls @ [10] @
     lit ''    Other information to use for the final object: '' @ raw_text @ [10] @
     lit ''    ''"

definition make_locals :: "env \<Rightarrow> Customer \<Rightarrow> json \<Rightarrow> locals" where
  "make_locals e c raw =
     (let image_ids = map snd (uploaded_image_ids (uploaded_ids e));
          image_urls = map (download_url e) image_ids;
          customer_address = make_customer_address c
      in \<lparr>l_customer = c, l_raw_json = raw, l_image_urls = image_urls,
          l_customer_address = customer_address,
          l_query = make_query c customer_address image_urls (format_dict e raw)\<rparr>)"

text \<open>
  The \<open>try\<close> block: \<open>final_output_as\<close> only casts, the \<open>assert isinstance\<close> raises an
  \<open>AssertionError\<close> carrying the type of what was returned.
\<close>

fun class_name :: "output_value \<Rightarrow> string" where
  "class_name (Out_InsuranceReport r) = ''InsuranceReport''"
| "class_name (Out_DamageInfo d) = ''DamageInfo''"
| "class_name (Out_EstimatedCost c) = ''EstimatedCost''"
| "class_name (Out_Shops s) = ''Shops''"

fun require_InsuranceReport :: "output_value \<Rightarrow> error + InsuranceReport" where
  "require_InsuranceReport (Out_InsuranceReport report) = Inr report"
| "require_InsuranceReport v = Inl AssertionError"

definition failure_line :: "output_value \<Rightarrow> str" where
  "failure_line v =
     [10060, 160] @ lit ''Orchestrator failed to return a valid InsuranceReport:'' @ [10] @
     lit '' <class '' @ [39] @ lit ''__main__.'' @ lit (class_name v) @ [39] @ lit ''>''"

text \<open>The statement after the \<open>try\<close> block: a blank report date becomes today's date.\<close>

definition fill_report_date :: "date \<Rightarrow> InsuranceReport \<Rightarrow> InsuranceReport" where
  "fill_report_date d report =
     (if report_date (claim report) = [] \<or> strip (report_date (claim report)) = []
      then report\<lparr>claim := (claim report)\<lparr>report_date := isoformat d\<rparr>\<rparr>
      else report)"

record claim_run =
  returned :: "error + InsuranceReport"
  locals_at_exit :: "locals option"
  printed :: "str list"
  events :: "event list"

definition process_insurance_claim :: "env \<Rightarrow> claim_run" where
  "process_insurance_claim e =
     (let p0 = [lit ''Loading customer information '' @ [8230]] in
      case parse_customer_info_file (claim_info_file e) of
        Inl err \<Rightarrow> \<lparr>returned = Inl err, locals_at_exit = None, printed = p0, events = []\<rparr>
      | Inr (c, raw) \<Rightarrow>
          (let l = make_locals e c raw;
               p1 = p0 @ map (\<lambda>url. lit ''Download URL: '' @ url) (l_image_urls l) @
                    [lit ''Running claim orchestrator '' @ [8230]];
               (result, tr) = Runner_run claim_orchestrator (guardrail_verdict e) (model_reply e)
           in case result of
                Inl err \<Rightarrow>
                  \<lparr>returned = Inl err, locals_at_exit = Some l, printed = p1, events = tr\<rparr>
              | Inr v \<Rightarrow>
                  (case require_InsuranceReport v of
                     Inl err \<Rightarrow>
                       \<lparr>returned = Inl err, locals_at_exit = Some l,
                        printed = p1 @ [failure_line v], events = tr\<rparr>
                   | Inr report \<Rightarrow>
                       \<lparr>returned = Inr (fill_report_date (today e) report),
                        locals_at_exit = Some l,
                        printed = p1 @ [[9989, 160] @ lit ''Workflow finished '' @ [8211, 160] @
                                        lit ''InsuranceReport ready''],
                        events = tr\<rparr>)))"

section \<open>The document-generation cell\<close>

text \<open>
  \<open>model_dump(mode="json")\<close>: every declared field is a key of the dict, in declaration
  order, and a field that is \<open>None\<close> is dumped as \<open>None\<close> (no field is excluded).
\<close>

fun dump_opt_str :: "str option \<Rightarrow> json" where
  "dump_opt_str None = JNull"
| "dump_opt_str (Some v) = JStr v"

fun dump_opt_str_list :: "str list option \<Rightarrow> json" where
  "dump_opt_str_list None = JNull"
| "dump_opt_str_list (Some vs) = JList (map JStr vs)"

definition dump_Claim :: "Claim \<Rightarrow> json" where
  "dump_Claim c = JDict
     [(lit ''report_date'', JStr (report_date c)),
      (lit ''assigned_adjuster'', JStr (assigned_adjuster c)),
      (lit ''other_driver_insurance_company'', dump_opt_str (other_driver_insurance_company c)),
      (lit ''other_driver_policy_number'', dump_opt_str (other_driver_policy_number c)),
      (lit ''cross_streets_of_accident'', JStr (cross_streets_of_accident c)),
      (lit ''date_of_incident'', JStr (date_of_incident c)),
      (lit ''time_of_incident'', JStr (time_of_incident c)),
      (lit ''number_of_vehicles_involved'', JStr (number_of_vehicles_involved c)),
      (lit ''customer_initial_report'', JStr (customer_initial_report c)),
      (lit ''law_enforcement_agency'', dump_opt_str (law_enforcement_agency c)),
      (lit ''law_enforcement_report_id'', dump_opt_str (law_enforcement_report_id c)),
      (lit ''damage_description'', dump_opt_str (Claim.damage_description c)),
      (lit ''estimated_cost'', dump_opt_str (Claim.estimated_cost c)),
      (lit ''damaged_parts_list'', dump_opt_str_list (Claim.damaged_parts_list c))]"

definition dump_Customer :: "Customer \<Rightarrow> json" where
  "dump_Customer c = JDict
     [(lit ''first_name'', JStr (first_name c)), (lit ''last_name'', JStr (last_name c)),
      (lit ''street_address'', JStr (street_address c)), (lit ''city'', JStr (city c)),
      (lit ''state'', JStr (state c)), (lit ''zip_code'', JStr (zip_code c)),
      (lit ''phone_number'', JStr (phone_number c)), (lit ''email'', JStr (email c)),
      (lit ''car_year'', JStr (car_year c)), (lit ''car_make'', JStr (car_make c)),
      (lit ''car_model'', JStr (car_model c)), (lit ''vin'', JStr (vin c)),
      (lit ''license_plate'', JStr (license_plate c)),
      (lit ''car_mileage'', JStr (car_mileage c)), (lit ''car_color'', JStr (car_color c)),
      (lit ''policy_number'', JStr (policy_number c))]"

definition dump_Shop :: "Shop \<Rightarrow> json" where
  "dump_Shop s = JDict
     [(lit ''shop_name'', JStr (shop_name s)), (lit ''shop_address'', JStr (shop_address s)),
      (lit ''shop_phone'', JStr (shop_phone s))]"

fun dump_opt_Shop :: "Shop option \<Rightarrow> json" where
  "dump_opt_Shop None = JNull"
| "dump_opt_Shop (Some s) = dump_Shop s"

definition dump_Shops :: "Shops \<Rightarrow> json" where
  "dump_Shops s = JDict
     [(lit ''shop_one'', dump_opt_Shop (shop_one s)),
      (lit ''shop_two'', dump_opt_Shop (shop_two s)),
      (lit ''shop_three'', dump_opt_Shop (shop_three s))]"

definition model_dump :: "InsuranceReport \<Rightarrow> json" where
  "model_dump r = JDict
     [(lit ''claim_number'', JStr (claim_number r)),
      (lit ''claim'', dump_Claim (claim r)),
      (lit ''customer'', dump_Customer (customer r)),
      (lit ''shops'', dump_Shops (shops r))]"

text \<open>\<open>d.get(key, default)\<close>; only a dict has \<open>get\<close>.\<close>

fun dict_get :: "json \<Rightarrow> str \<Rightarrow> json \<Rightarrow> error + json" where
  "dict_get (JDict kvs) k dflt = Inr (case map_of kvs k of None \<Rightarrow> dflt | Some v \<Rightarrow> v)"
| "dict_get _ k dflt = Inl AttributeError"

text \<open>
  \<open>d[key] = value\<close>: the value of an existing key is replaced in place, a new key is added
  at the end.
\<close>

fun assoc_update :: "str \<Rightarrow> json \<Rightarrow> (str \<times> json) list \<Rightarrow> (str \<times> json) list" where
  "assoc_update k v [] = [(k, v)]"
| "assoc_update k v ((k', v') # kvs) =
     (if k' = k then (k, v) # kvs else (k', v') # assoc_update k v kvs)"

fun dict_setitem :: "json \<Rightarrow> str \<Rightarrow> json \<Rightarrow> error + json" where
  "dict_setitem (JDict kvs) k v = Inr (JDict (assoc_update k v kvs))"
| "dict_setitem _ k v = Inl TypeError"

text \<open>
  \<open>sep.join(v)\<close> for a JSON value \<open>v\<close>: a list joins if all its items are strings, a string
  joins its characters, a dict its keys; \<open>None\<close>, a boolean and a number are not iterable
  and raise a \<open>TypeError\<close>, as does a list item that is not a string.
\<close>

fun the_JStr :: "json \<Rightarrow> str" where
  "the_JStr (JStr v) = v"
| "the_JStr _ = []"

fun py_join :: "str \<Rightarrow> json \<Rightarrow> error + str" where
  "py_join sep (JList vs) =
     (if list_all is_JStr vs then Inr (join sep (map the_JStr vs)) else Inl TypeError)"
| "py_join sep (JStr v) = Inr (join sep (map (\<lambda>c. [c]) v))"
| "py_join sep (JDict kvs) = Inr (join sep (map fst kvs))"
| "py_join sep _ = Inl TypeError"

record docgen_document =
  generated_file_name :: str
  user_input :: json

record docgen_batch =
  template_file :: str
  input_source :: str
  destination_folder :: str
  output_type :: str
  document_generation_data :: "docgen_document list"

text \<open>
  The flattening of \<open>docgen_user_input["claim"]["damaged_parts_list"]\<close>: the two statements
  that follow the dump.
\<close>

definition flatten_parts :: "json \<Rightarrow> error + json" where
  "flatten_parts docgen_user_input =
     (case dict_getitem docgen_user_input (lit ''claim'') of
        Inl err \<Rightarrow> Inl err
      | Inr claim_dict \<Rightarrow>
          (case dict_get claim_dict (lit ''damaged_parts_list'') (JList []) of
             Inl err \<Rightarrow> Inl err
           | Inr parts_list \<Rightarrow>
               (case py_join (lit '', '') parts_list of
                  Inl err \<Rightarrow> Inl err
                | Inr joined \<Rightarrow>
                    (case dict_setitem claim_dict (lit ''damaged_parts_list'') (JStr joined) of
                       Inl err \<Rightarrow> Inl err
                     | Inr claim_dict' \<Rightarrow>
                         dict_setitem docgen_user_input (lit ''claim'') claim_dict'))))"

text \<open>
  The cell: dump, flatten, then the request given to \<open>create_docgen_batch_v2025_r0\<close>
  (its \<open>file\<close> argument is \<open>template_file\<close> here). The result is the request that is
  submitted, or the exception raised before anything is submitted.
\<close>

definition docgen_cell :: "uploaded \<Rightarrow> InsuranceReport \<Rightarrow> error + docgen_batch" where
  "docgen_cell ids final_report =
     (case flatten_parts (model_dump final_report) of
        Inl err \<Rightarrow> Inl err
      | Inr docgen_user_input \<Rightarrow>
          Inr \<lparr>template_file = template_file_id ids,
               input_source = lit ''api'',
               destination_folder = claim_folder_id ids,
               output_type = lit ''pdf'',
               document_generation_data =
                 [\<lparr>generated_file_name =
                     lit ''Pre'' @ [8209] @ lit ''Inspection'' @ [8209] @ lit ''Report'' @
                     [8209] @ claim_number final_report,
                   user_input = docgen_user_input\<rparr>]\<rparr>)"


section \<open>Notions used to state the properties\<close>

text \<open>The agents that took a turn in a run, in order.\<close>

fun agent_turns :: "event list \<Rightarrow> agent list" where
  "agent_turns [] = []"
| "agent_turns (Agent_turn a # evs) = a # agent_turns evs"
| "agent_turns (Tool_call t # evs) = agent_turns evs"

text \<open>\<open>follows a b\<close>: after a turn of \<open>a\<close> the next turn is \<open>a\<close>'s again or its hand-off target's.\<close>

definition follows :: "agent \<Rightarrow> agent \<Rightarrow> bool" where
  "follows a b \<longleftrightarrow> b = a \<or> handoffs a = [b]"

definition is_digit :: "codepoint \<Rightarrow> bool" where
  "is_digit c \<longleftrightarrow> 48 \<le> c \<and> c \<le> 57"

text \<open>The shape \<open>YYYY-MM-DD\<close>.\<close>

fun iso_shaped :: "str \<Rightarrow> bool" where
  "iso_shaped [y1, y2, y3, y4, h1, m1, m2, h2, d1, d2] =
     (is_digit y1 \<and> is_digit y2 \<and> is_digit y3 \<and> is_digit y4 \<and> h1 = 45 \<and>
      is_digit m1 \<and> is_digit m2 \<and> h2 = 45 \<and> is_digit d1 \<and> is_digit d2)"
| "iso_shaped _ = False"

section \<open>Example inputs\<close>

text \<open>A script of model replies: the listed replies in order, then \<open>d\<close> for ever.\<close>

fun replies_of :: "response list \<Rightarrow> response \<Rightarrow> nat \<Rightarrow> response" where
  "replies_of [] d n = d"
| "replies_of (r # rs) d 0 = r"
| "replies_of (r # rs) d (Suc n) = replies_of rs d n"

definition example_entries :: "(str \<times> json) list" where
  "example_entries =
     [(lit ''claim_number'', JStr (lit ''G8947892834455'')),
      (lit ''customer_first_name'', JStr (lit ''Ada'')),
      (lit ''customer_last_name'', JStr (lit ''Byron'')),
      (lit ''customer_street_address'', JStr (lit ''123 Main St'')),
      (lit ''customer_city'', JStr (lit ''Springfield'')),
      (lit ''customer_state'', JStr (lit ''IL'')),
      (lit ''customer_zip_code'', JStr (lit ''62704'')),
      (lit ''customer_phone_number'', JStr (lit ''555-0100'')),
      (lit ''customer_email'', JStr (lit ''ada@example.com'')),
      (lit ''customer_car_year'', JStr (lit ''2023'')),
      (lit ''customer_car_make'', JStr (lit ''Honda'')),
      (lit ''customer_car_model'', JStr (lit ''Civic'')),
      (lit ''customer_vin'', JStr (lit ''1HGFE2F50PH000001'')),
      (lit ''customer_license_plate'', JStr (lit ''ABC1234'')),
      (lit ''customer_car_mileage'', JStr (lit ''12000'')),
      (lit ''customer_car_color'', JStr (lit ''blue'')),
      (lit ''customer_policy_number'', JStr (lit ''P-001''))]"

definition example_customer :: Customer where
  "example_customer =
     \<lparr>first_name = lit ''Ada'', last_name = lit ''Byron'',
      street_address = lit ''123 Main St'', city = lit ''Springfield'', state = lit ''IL'',
      zip_code = lit ''62704'', phone_number = lit ''555-0100'',
      email = lit ''ada@example.com'', car_year = lit ''2023'', car_make = lit ''Honda'',
      car_model = lit ''Civic'', vin = lit ''1HGFE2F50PH000001'',
      license_plate = lit ''ABC1234'', car_mileage = lit ''12000'', car_color = lit ''blue'',
      policy_number = lit ''P-001''\<rparr>"

text \<open>The same file with \<open>"customer_vin": null\<close>.\<close>

definition null_vin_entries :: "(str \<times> json) list" where
  "null_vin_entries = assoc_update (lit ''customer_vin'') JNull example_entries"

text \<open>A merged report whose report date is a space and a tab.\<close>

definition merged_report :: InsuranceReport where
  "merged_report =
     \<lparr>claim_number = lit ''G8947892834455'',
      claim =
        \<lparr>report_date = [32, 9], assigned_adjuster = lit ''Lee'',
         other_driver_insurance_company = None, other_driver_policy_number = None,
         cross_streets_of_accident = lit ''1st and Main'',
         date_of_incident = lit ''2026-10-30'', time_of_incident = lit ''09:15'',
         number_of_vehicles_involved = lit ''2'',
         customer_initial_report = lit ''Rear-ended at a light'',
         law_enforcement_agency = None, law_enforcement_report_id = None,
         damage_description = Some (lit ''Crushed rear bumper''),
         estimated_cost = Some (lit ''$1,200 - $1,800''),
         damaged_parts_list = Some [lit ''rear bumper'', lit ''parking camera'']\<rparr>,
      customer = example_customer,
      shops =
        \<lparr>shop_one = Some \<lparr>shop_name = lit ''Fixit'', shop_address = lit ''9 Elm St'',
                            shop_phone = lit ''555-0111''\<rparr>,
         shop_two = None, shop_three = None\<rparr>\<rparr>"

text \<open>A report that holds nothing a specialist produced.\<close>

definition bare_report :: InsuranceReport where
  "bare_report =
     merged_report
       \<lparr>claim := (claim merged_report)
          \<lparr>damage_description := None, estimated_cost := None, damaged_parts_list := None\<rparr>,
        shops := \<lparr>shop_one = None, shop_two = None, shop_three = None\<rparr>\<rparr>"


definition example_ids :: uploaded where
  "example_ids =
     \<lparr>base_folder_id = lit ''100'', claims_folder_id = lit ''101'',
      claim_folder_id = lit ''102'', images_folder_id = lit ''103'',
      uploaded_image_ids = [(lit ''front.jpg'', lit ''201''), (lit ''rear.jpg'', lit ''202'')],
      template_file_id = lit ''300''\<rparr>"

text \<open>
  An environment with an in-domain verdict; the replies of the agents' models are its
  argument.
\<close>

definition example_env :: "(nat \<Rightarrow> response) \<Rightarrow> env" where
  "example_env replies =
     \<lparr>claim_info_file = JDict example_entries,
      uploaded_ids = example_ids,
      download_url = (\<lambda>file_id. lit ''https://dl.example/'' @ file_id),
      format_dict = (\<lambda>d. lit ''{...}''),
      guardrail_verdict = \<lparr>is_insurance_related = True, reasoning = lit ''a car claim''\<rparr>,
      model_reply = replies,
      today = \<lparr>date_year = 2026, date_month = 11, date_day = 2\<rparr>\<rparr>"

text \<open>The replies of a run through all three specialists.\<close>

definition full_replies :: "nat \<Rightarrow> response" where
  "full_replies =
     replies_of
       [Transfer_to image_analysis_agent, Call_tool Tool_analyze_vehicle_damage_gpt4v,
        Transfer_to cost_estimation_agent, Transfer_to repair_shop_agent,
        Call_tool WebSearchTool, Transfer_to claim_orchestrator]
       (Final_output (Out_InsuranceReport merged_report))"

text \<open>The orchestrator answers at once, without a hand-off.\<close>

definition direct_replies :: "nat \<Rightarrow> response" where
  "direct_replies = replies_of [] (Final_output (Out_InsuranceReport bare_report))"


text \<open>The orchestrator hands off a second time when control returns to it.\<close>

definition two_lap_replies :: "nat \<Rightarrow> response" where
  "two_lap_replies =
     replies_of
       [Transfer_to image_analysis_agent, Transfer_to cost_estimation_agent,
        Transfer_to repair_shop_agent, Transfer_to claim_orchestrator,
        Transfer_to image_analysis_agent, Transfer_to cost_estimation_agent,
        Transfer_to repair_shop_agent, Transfer_to claim_orchestrator]
       (Final_output (Out_InsuranceReport merged_report))"


section \<open>Properties of the vision tool\<close>

text \<open>
  C7. Whatever the image URLs, year, make and model, the text item of the message built by
  \<open>analyze_vehicle_damage_gpt4v\<close> is the prompt, and the prompt asks for hidden damage that
  may not be visible in the photos, naming the camera in the bumper and the batteries the
  vehicle uses.
\<close>

theorem prompt_requests_hidden_damage:
  "hd (input_content image_urls v_year v_make v_model) = Input_text (prompt_text v_year v_make v_model) \<and>
   sublist
     (lit ''include hidden damage that you might not be able to see in the photos, for example camera in the bumper or the batteries the vehicle uses'')
     (prompt_text v_year v_make v_model)"
proof -
  let ?H = "lit ''include hidden damage that you might not be able to see in the photos, for example camera in the bumper or the batteries the vehicle uses''"
  let ?P = "lit ''Think deeply. Based on these images, create a list of parts that you estimate will need repaired or replaced, as well as a detailed description of the damage to the vehicle. Make sure to think about and ''"
  have "\<exists>ss. prompt_text v_year v_make v_model = ?P @ ?H @ ss"
    by (simp add: prompt_text_def lit_def)
  then have "sublist ?H (prompt_text v_year v_make v_model)"
    unfolding sublist_def by blast
  then show ?thesis
    by (simp add: input_content_def)
qed

section \<open>Properties of the driver\<close>

lemma strip_Nil_iff: "strip s = [] \<longleftrightarrow> (\<forall>c\<in>set s. py_isspace c)"
proof
  assume h: "strip s = []"
  then have all: "\<forall>c\<in>set (dropWhile py_isspace s). py_isspace c"
    by (simp add: strip_def)
  have "dropWhile py_isspace s = []"
  proof (rule ccontr)
    assume ne: "dropWhile py_isspace s \<noteq> []"
    then have "\<not> py_isspace (hd (dropWhile py_isspace s))"
      by (rule hd_dropWhile)
    moreover have "hd (dropWhile py_isspace s) \<in> set (dropWhile py_isspace s)"
      using ne by simp
    ultimately show False
      using all by blast
  qed
  then show "\<forall>c\<in>set s. py_isspace c"
    by simp
next
  assume "\<forall>c\<in>set s. py_isspace c"
  then show "strip s = []"
    by (auto simp: strip_def dest: set_dropWhileD)
qed

lemma blank_iff: "(s = [] \<or> strip s = []) \<longleftrightarrow> (\<forall>c\<in>set s. py_isspace c)"
  using strip_Nil_iff by auto

lemma fill_report_date_eq:
  "fill_report_date d r =
     r\<lparr>claim := (claim r)\<lparr>report_date :=
         (if \<forall>c\<in>set (report_date (claim r)). py_isspace c then isoformat d
          else report_date (claim r))\<rparr>\<rparr>"
  unfolding fill_report_date_def blank_iff by simp

lemma is_digit_digit: "is_digit (digit n)"
proof -
  have "n mod 10 < 10" by simp
  then show ?thesis unfolding is_digit_def digit_def by linarith
qed

lemma iso_shaped_isoformat: "iso_shaped (isoformat d)"
  by (simp add: isoformat_def is_digit_digit)

lemma parse_example:
  "parse_customer_info_file (JDict example_entries) = Inr (example_customer, JDict example_entries)"
  by (simp add: parse_customer_info_file_def example_entries_def example_customer_def
      customer_fields_def Customer_init_def kwarg_def lit_def)

lemma run_full:
  "Runner_run claim_orchestrator (guardrail_verdict (example_env full_replies)) full_replies =
     (Inr (Out_InsuranceReport merged_report),
      [Agent_turn claim_orchestrator, Agent_turn image_analysis_agent,
       Tool_call Tool_analyze_vehicle_damage_gpt4v, Agent_turn image_analysis_agent,
       Agent_turn cost_estimation_agent, Agent_turn repair_shop_agent, Tool_call WebSearchTool,
       Agent_turn repair_shop_agent, Agent_turn claim_orchestrator])"
  by (simp add: Runner_run_def example_env_def insurance_query_guardrail_def
      DEFAULT_MAX_TURNS_def eval_nat_numeral full_replies_def)

text \<open>
  C3. When the orchestrator's run ends with an \<open>InsuranceReport\<close>, the driver returns that
  report with one field possibly changed: a report date that is empty or consists of
  whitespace only is replaced by today's date in ISO form (\<open>YYYY-MM-DD\<close>), any other report
  date is kept, and every other field of the report is as the merge produced it.
\<close>

theorem report_date_default_fill:
  assumes "parse_customer_info_file (claim_info_file e) = Inr (c, raw)"
    and "Runner_run claim_orchestrator (guardrail_verdict e) (model_reply e) =
           (Inr (Out_InsuranceReport r), tr)"
  shows "returned (process_insurance_claim e) =
           Inr (r\<lparr>claim := (claim r)\<lparr>report_date :=
                  (if \<forall>ch\<in>set (report_date (claim r)). py_isspace ch
                   then isoformat (today e) else report_date (claim r))\<rparr>\<rparr>) \<and>
         iso_shaped (isoformat (today e))"
  using assms
  by (simp add: process_insurance_claim_def fill_report_date_eq iso_shaped_isoformat Let_def)

theorem report_date_default_fill_witness:
  "returned (process_insurance_claim (example_env full_replies)) =
     Inr (merged_report\<lparr>claim := (claim merged_report)\<lparr>report_date := lit ''2026-11-02''\<rparr>\<rparr>)"
proof -
  have p: "parse_customer_info_file (claim_info_file (example_env full_replies)) =
             Inr (example_customer, JDict example_entries)"
    using parse_example by (simp add: example_env_def)
  have r: "Runner_run claim_orchestrator (guardrail_verdict (example_env full_replies))
             (model_reply (example_env full_replies)) = (Inr (Out_InsuranceReport merged_report),
      [Agent_turn claim_orchestrator, Agent_turn image_analysis_agent,
       Tool_call Tool_analyze_vehicle_damage_gpt4v, Agent_turn image_analysis_agent,
       Agent_turn cost_estimation_agent, Agent_turn repair_shop_agent, Tool_call WebSearchTool,
       Agent_turn repair_shop_agent, Agent_turn claim_orchestrator])"
    using run_full by (simp add: example_env_def)
  have d: "report_date (claim merged_report) = [32, 9]"
    by (simp add: merged_report_def)
  have t: "isoformat (today (example_env full_replies)) = lit ''2026-11-02''"
    by (simp add: example_env_def isoformat_def digit_def lit_def)
  from report_date_default_fill[OF p r] show ?thesis
    by (simp add: d t py_isspace_def)
qed

lemma require_InsuranceReport_Inr:
  "require_InsuranceReport v = Inr r \<longleftrightarrow> v = Out_InsuranceReport r"
  by (cases v) auto







section \<open>Properties of the hand-off chain\<close>

lemma run_loop_last:
  "run_loop reply n t a tr = (Inr v, tr') \<Longrightarrow>
     \<exists>b. tr' \<noteq> [] \<and> last tr' = Agent_turn b \<and> agent_output_type b = type_of v"
  by (induction n arbitrary: t a tr) (auto split: response.splits if_splits)

lemma agent_turns_append: "agent_turns (xs @ ys) = agent_turns xs @ agent_turns ys"
  by (induction xs rule: agent_turns.induct) auto

lemma agent_turns_last:
  "tr \<noteq> [] \<Longrightarrow> last tr = Agent_turn b \<Longrightarrow> agent_turns tr \<noteq> [] \<and> last (agent_turns tr) = b"
proof -
  assume "tr \<noteq> []" and "last tr = Agent_turn b"
  then have "tr = butlast tr @ [Agent_turn b]"
    by (metis append_butlast_last_id)
  then have "agent_turns tr = agent_turns (butlast tr) @ [b]"
    by (metis agent_turns_append agent_turns.simps(1,2))
  then show ?thesis by simp
qed

lemma successively_hd:
  "successively R xs \<Longrightarrow> xs = [] \<or> R a (hd xs) \<Longrightarrow> successively R (a # xs)"
  by (cases xs) auto

lemma follows_cases:
  "follows a b \<Longrightarrow>
     b = a \<or> (a = claim_orchestrator \<and> b = image_analysis_agent) \<or>
     (a = image_analysis_agent \<and> b = cost_estimation_agent) \<or>
     (a = cost_estimation_agent \<and> b = repair_shop_agent) \<or>
     (a = repair_shop_agent \<and> b = claim_orchestrator)"
  by (cases a) (auto simp: follows_def)

lemma reaches_repair_shop:
  "successively follows (a # xs) \<Longrightarrow> last (a # xs) = claim_orchestrator \<Longrightarrow>
     a \<noteq> claim_orchestrator \<Longrightarrow> repair_shop_agent \<in> set (a # xs)"
proof (induction xs arbitrary: a)
  case Nil
  then show ?case by simp
next
  case (Cons b ys)
  from Cons.prems have f: "follows a b" and s: "successively follows (b # ys)"
    and l: "last (b # ys) = claim_orchestrator"
    by auto
  from follows_cases[OF f] Cons.prems(3) Cons.IH[OF s l] show ?case
    by auto
qed

lemma reaches_cost_estimation:
  "successively follows (image_analysis_agent # xs) \<Longrightarrow>
     last (image_analysis_agent # xs) = claim_orchestrator \<Longrightarrow>
     cost_estimation_agent \<in> set xs"
proof (induction xs)
  case Nil
  then show ?case by simp
next
  case (Cons b ys)
  from Cons.prems have f: "follows image_analysis_agent b"
    by auto
  from follows_cases[OF f] Cons show ?case
    by auto
qed

lemma orchestrator_loop:
  "successively follows (claim_orchestrator # xs) \<Longrightarrow>
     last (claim_orchestrator # xs) = claim_orchestrator \<Longrightarrow>
     (\<forall>a\<in>set xs. a = claim_orchestrator) \<or>
     {image_analysis_agent, cost_estimation_agent, repair_shop_agent} \<subseteq> set xs"
proof (induction xs)
  case Nil
  then show ?case by simp
next
  case (Cons b ys)
  from Cons.prems have f: "follows claim_orchestrator b"
    and s: "successively follows (b # ys)" and l: "last (b # ys) = claim_orchestrator"
    by auto
  from follows_cases[OF f] have "b = claim_orchestrator \<or> b = image_analysis_agent"
    by auto
  then show ?case
  proof
    assume "b = claim_orchestrator"
    with Cons.IH s l show ?thesis by auto
  next
    assume b: "b = image_analysis_agent"
    from reaches_repair_shop[OF s l] reaches_cost_estimation[OF s[unfolded b] l[unfolded b]] b
    show ?thesis by auto
  qed
qed

lemma run_loop_chain:
  "run_loop reply n t a tr = (res, tr') \<Longrightarrow>
     \<exists>ext. tr' = tr @ ext \<and> successively follows (agent_turns ext) \<and>
           (agent_turns ext = [] \<or> hd (agent_turns ext) = a)"
proof (induction n arbitrary: t a tr)
  case 0
  then show ?case by simp
next
  case (Suc n)
  show ?case
  proof (cases "reply t")
    case (Call_tool x)
    show ?thesis
    proof (cases "x \<in> set (tools a)")
      case True
      with Suc.prems Call_tool
      have "run_loop reply n (Suc t) a (tr @ [Agent_turn a, Tool_call x]) = (res, tr')"
        by simp
      from Suc.IH[OF this] obtain ext where
        e: "tr' = (tr @ [Agent_turn a, Tool_call x]) @ ext"
           "successively follows (agent_turns ext)"
           "agent_turns ext = [] \<or> hd (agent_turns ext) = a"
        by blast
      have "successively follows (a # agent_turns ext)"
        using e(2,3) by (intro successively_hd) (auto simp: follows_def)
      with e(1) show ?thesis
        by (intro exI[of _ "[Agent_turn a, Tool_call x] @ ext"]) simp
    next
      case False
      with Suc.prems Call_tool show ?thesis
        by (intro exI[of _ "[Agent_turn a]"]) auto
    qed
  next
    case (Transfer_to b)
    show ?thesis
    proof (cases "b \<in> set (handoffs a)")
      case True
      with Suc.prems Transfer_to
      have "run_loop reply n (Suc t) b (tr @ [Agent_turn a]) = (res, tr')"
        by simp
      from Suc.IH[OF this] obtain ext where
        e: "tr' = (tr @ [Agent_turn a]) @ ext"
           "successively follows (agent_turns ext)"
           "agent_turns ext = [] \<or> hd (agent_turns ext) = b"
        by blast
      have "follows a b"
        using True by (cases a) (auto simp: follows_def)
      then have "successively follows (a # agent_turns ext)"
        using e(2,3) by (intro successively_hd) auto
      with e(1) show ?thesis
        by (intro exI[of _ "[Agent_turn a] @ ext"]) simp
    next
      case False
      with Suc.prems Transfer_to show ?thesis
        by (intro exI[of _ "[Agent_turn a]"]) auto
    qed
  next
    case (Final_output v)
    with Suc.prems show ?thesis
      by (intro exI[of _ "[Agent_turn a]"]) (auto split: if_splits)
  qed
qed

lemma Runner_run_chain:
  assumes "Runner_run a verdict replies = (res, tr)"
  shows "successively follows (agent_turns tr) \<and>
         (agent_turns tr = [] \<or> hd (agent_turns tr) = a)"
proof (cases "list_ex (\<lambda>g. tripwire_triggered (g verdict)) (input_guardrails a)")
  case True
  with assms show ?thesis by (simp add: Runner_run_def)
next
  case False
  with assms have "run_loop replies DEFAULT_MAX_TURNS 0 a [] = (res, tr)"
    by (simp add: Runner_run_def)
  from run_loop_chain[OF this] show ?thesis by auto
qed

lemma Runner_run_last:
  assumes "Runner_run a verdict replies = (Inr v, tr)"
  shows "\<exists>b. tr \<noteq> [] \<and> last tr = Agent_turn b \<and> agent_output_type b = type_of v"
proof (cases "list_ex (\<lambda>g. tripwire_triggered (g verdict)) (input_guardrails a)")
  case True
  with assms show ?thesis by (simp add: Runner_run_def)
next
  case False
  with assms have "run_loop replies DEFAULT_MAX_TURNS 0 a [] = (Inr v, tr)"
    by (simp add: Runner_run_def)
  from run_loop_last[OF this] show ?thesis .
qed

lemma Runner_run_report_last:
  assumes "Runner_run a verdict replies = (Inr (Out_InsuranceReport r), tr)"
  shows "tr \<noteq> [] \<and> last tr = Agent_turn claim_orchestrator"
proof -
  from Runner_run_last[OF assms] obtain b where
    b: "tr \<noteq> []" "last tr = Agent_turn b" "agent_output_type b = T_InsuranceReport"
    by auto
  from b(3) have "b = claim_orchestrator" by (cases b) auto
  with b show ?thesis by simp
qed

lemma driver_success:
  "returned (process_insurance_claim e) = Inr r' \<Longrightarrow>
     \<exists>r. Runner_run claim_orchestrator (guardrail_verdict e) (model_reply e) =
           (Inr (Out_InsuranceReport r), events (process_insurance_claim e))"
  by (auto simp: process_insurance_claim_def Let_def require_InsuranceReport_Inr
      split: sum.splits prod.splits)

text \<open>
  C1 (as amended). When the driver returns a report, the run ended with a turn of the
  orchestrator, and either no specialist took a turn or all three of Image Analyst, Cost
  Estimator and Repair Shop Finder did: a run whose hand-off chain stops at a specialist
  does not return a report. Nothing makes the run fail when the orchestrator answers
  without handing off at all.
\<close>

theorem returned_report_all_or_no_specialist:
  assumes "returned (process_insurance_claim e) = Inr r'"
  shows "last (events (process_insurance_claim e)) = Agent_turn claim_orchestrator \<and>
         ((\<forall>a\<in>set (agent_turns (events (process_insurance_claim e))). a = claim_orchestrator) \<or>
          {image_analysis_agent, cost_estimation_agent, repair_shop_agent}
            \<subseteq> set (agent_turns (events (process_insurance_claim e))))"
proof -
  let ?tr = "events (process_insurance_claim e)"
  from driver_success[OF assms] obtain r where
    run: "Runner_run claim_orchestrator (guardrail_verdict e) (model_reply e) =
            (Inr (Out_InsuranceReport r), ?tr)"
    by blast
  from Runner_run_report_last[OF run] have l: "?tr \<noteq> []" "last ?tr = Agent_turn claim_orchestrator"
    by auto
  from agent_turns_last[OF l] have al: "agent_turns ?tr \<noteq> []"
    "last (agent_turns ?tr) = claim_orchestrator"
    by auto
  from Runner_run_chain[OF run] al(1) have ch: "successively follows (agent_turns ?tr)"
    "hd (agent_turns ?tr) = claim_orchestrator"
    by auto
  from al(1) ch(2) obtain xs where xs: "agent_turns ?tr = claim_orchestrator # xs"
    by (cases "agent_turns ?tr") auto
  from orchestrator_loop[of xs] ch(1) al(2) xs
  have "(\<forall>a\<in>set xs. a = claim_orchestrator) \<or>
        {image_analysis_agent, cost_estimation_agent, repair_shop_agent} \<subseteq> set xs"
    by simp
  with xs l(2) show ?thesis
    by auto
qed

lemma run_direct:
  "Runner_run claim_orchestrator (guardrail_verdict (example_env direct_replies)) direct_replies =
     (Inr (Out_InsuranceReport bare_report), [Agent_turn claim_orchestrator])"
  by (simp add: Runner_run_def example_env_def insurance_query_guardrail_def
      DEFAULT_MAX_TURNS_def eval_nat_numeral direct_replies_def)

lemma driver_events:
  "parse_customer_info_file (claim_info_file e) = Inr (c, raw) \<Longrightarrow>
   Runner_run claim_orchestrator (guardrail_verdict e) (model_reply e) = (res, tr) \<Longrightarrow>
   events (process_insurance_claim e) = tr"
  by (simp add: process_insurance_claim_def Let_def split: sum.splits)

lemma driver_returned:
  "parse_customer_info_file (claim_info_file e) = Inr (c, raw) \<Longrightarrow>
   Runner_run claim_orchestrator (guardrail_verdict e) (model_reply e) =
     (Inr (Out_InsuranceReport r), tr) \<Longrightarrow>
   returned (process_insurance_claim e) = Inr (fill_report_date (today e) r)"
  by (simp add: process_insurance_claim_def Let_def)

lemma example_env_simps:
  "claim_info_file (example_env replies) = JDict example_entries"
  "model_reply (example_env replies) = replies"
  "uploaded_ids (example_env replies) = example_ids"
  "isoformat (today (example_env replies)) = lit ''2026-11-02''"
  by (simp_all add: example_env_def isoformat_def digit_def lit_def)

lemma parse_example_env:
  "parse_customer_info_file (claim_info_file (example_env replies)) =
     Inr (example_customer, JDict example_entries)"
  using parse_example by (simp add: example_env_simps)

lemma fill_merged:
  "fill_report_date (today (example_env replies)) merged_report =
     merged_report\<lparr>claim := (claim merged_report)\<lparr>report_date := lit ''2026-11-02''\<rparr>\<rparr>"
  by (simp add: fill_report_date_eq example_env_simps) (simp add: merged_report_def py_isspace_def)

lemma fill_bare:
  "fill_report_date (today (example_env replies)) bare_report =
     bare_report\<lparr>claim := (claim bare_report)\<lparr>report_date := lit ''2026-11-02''\<rparr>\<rparr>"
  by (simp add: fill_report_date_eq example_env_simps)
     (simp add: bare_report_def merged_report_def py_isspace_def)

theorem returned_report_all_or_no_specialist_witness:
  "returned (process_insurance_claim (example_env full_replies)) =
     Inr (merged_report\<lparr>claim := (claim merged_report)\<lparr>report_date := lit ''2026-11-02''\<rparr>\<rparr>) \<and>
   last (events (process_insurance_claim (example_env full_replies))) =
     Agent_turn claim_orchestrator \<and>
   agent_turns (events (process_insurance_claim (example_env full_replies))) =
     [claim_orchestrator, image_analysis_agent, image_analysis_agent, cost_estimation_agent,
      repair_shop_agent, repair_shop_agent, claim_orchestrator]"
proof -
  let ?e = "example_env full_replies"
  have run: "Runner_run claim_orchestrator (guardrail_verdict ?e) (model_reply ?e) =
     (Inr (Out_InsuranceReport merged_report),
      [Agent_turn claim_orchestrator, Agent_turn image_analysis_agent,
       Tool_call Tool_analyze_vehicle_damage_gpt4v, Agent_turn image_analysis_agent,
       Agent_turn cost_estimation_agent, Agent_turn repair_shop_agent, Tool_call WebSearchTool,
       Agent_turn repair_shop_agent, Agent_turn claim_orchestrator])"
    using run_full by (simp add: example_env_simps)
  have ret: "returned (process_insurance_claim ?e) =
     Inr (merged_report\<lparr>claim := (claim merged_report)\<lparr>report_date := lit ''2026-11-02''\<rparr>\<rparr>)"
    using driver_returned[OF parse_example_env run] by (simp add: fill_merged)
  have ev: "agent_turns (events (process_insurance_claim ?e)) =
     [claim_orchestrator, image_analysis_agent, image_analysis_agent, cost_estimation_agent,
      repair_shop_agent, repair_shop_agent, claim_orchestrator]"
    using driver_events[OF parse_example_env run] by simp
  from returned_report_all_or_no_specialist[OF ret] ret ev show ?thesis
    by blast
qed

theorem merge_without_specialists_counterexample:
  "returned (process_insurance_claim (example_env direct_replies)) =
     Inr (bare_report\<lparr>claim := (claim bare_report)\<lparr>report_date := lit ''2026-11-02''\<rparr>\<rparr>) \<and>
   events (process_insurance_claim (example_env direct_replies)) =
     [Agent_turn claim_orchestrator] \<and>
   Claim.damage_description (claim bare_report) = None \<and>
   Claim.estimated_cost (claim bare_report) = None \<and>
   Claim.damaged_parts_list (claim bare_report) = None \<and>
   shops bare_report = \<lparr>shop_one = None, shop_two = None, shop_three = None\<rparr>"
proof -
  let ?e = "example_env direct_replies"
  have run: "Runner_run claim_orchestrator (guardrail_verdict ?e) (model_reply ?e) =
     (Inr (Out_InsuranceReport bare_report), [Agent_turn claim_orchestrator])"
    using run_direct by (simp add: example_env_simps)
  have ret: "returned (process_insurance_claim ?e) =
     Inr (bare_report\<lparr>claim := (claim bare_report)\<lparr>report_date := lit ''2026-11-02''\<rparr>\<rparr>)"
    using driver_returned[OF parse_example_env run] by (simp add: fill_bare)
  have ev: "events (process_insurance_claim ?e) = [Agent_turn claim_orchestrator]"
    using driver_events[OF parse_example_env run] by simp
  show ?thesis
    using ret ev by (simp add: bare_report_def)
qed

lemma run_two_laps:
  "Runner_run claim_orchestrator (guardrail_verdict (example_env two_lap_replies)) two_lap_replies =
     (Inr (Out_InsuranceReport merged_report),
      [Agent_turn claim_orchestrator, Agent_turn image_analysis_agent,
       Agent_turn cost_estimation_agent, Agent_turn repair_shop_agent,
       Agent_turn claim_orchestrator, Agent_turn image_analysis_agent,
       Agent_turn cost_estimation_agent, Agent_turn repair_shop_agent,
       Agent_turn claim_orchestrator])"
  by (simp add: Runner_run_def example_env_def insurance_query_guardrail_def
      DEFAULT_MAX_TURNS_def eval_nat_numeral two_lap_replies_def)

text \<open>
  C6 (as amended). Every agent declares exactly one hand-off target, in the order
  orchestrator, Image Analyst, Cost Estimator, Repair Shop Finder and back to the
  orchestrator. In every run that starts at the orchestrator the first turn is the
  orchestrator's, each later turn is taken by the same agent as the turn before or by its
  hand-off target, and a run that ends with an \<open>InsuranceReport\<close> ends with a turn of the
  orchestrator: no agent takes a turn after the merge. The declared structure is a cycle,
  and a run may go round it more than once before the merge.
\<close>

theorem hand_off_chain:
  assumes "Runner_run claim_orchestrator verdict replies = (res, tr)"
  shows "handoffs claim_orchestrator = [image_analysis_agent] \<and>
         handoffs image_analysis_agent = [cost_estimation_agent] \<and>
         handoffs cost_estimation_agent = [repair_shop_agent] \<and>
         handoffs repair_shop_agent = [claim_orchestrator] \<and>
         successively follows (agent_turns tr) \<and>
         (agent_turns tr = [] \<or> hd (agent_turns tr) = claim_orchestrator) \<and>
         (\<forall>r. res = Inr (Out_InsuranceReport r) \<longrightarrow>
              tr \<noteq> [] \<and> last tr = Agent_turn claim_orchestrator)"
proof -
  have "tr \<noteq> [] \<and> last tr = Agent_turn claim_orchestrator"
    if "res = Inr (Out_InsuranceReport r)" for r
    using Runner_run_report_last[of claim_orchestrator verdict replies r tr] assms that
    by simp
  with Runner_run_chain[OF assms] show ?thesis
    by simp
qed

theorem hand_off_chain_witness:
  "successively follows
     (agent_turns (snd (Runner_run claim_orchestrator
        (guardrail_verdict (example_env full_replies)) full_replies))) \<and>
   hd (agent_turns (snd (Runner_run claim_orchestrator
        (guardrail_verdict (example_env full_replies)) full_replies))) = claim_orchestrator \<and>
   last (snd (Runner_run claim_orchestrator
        (guardrail_verdict (example_env full_replies)) full_replies)) =
     Agent_turn claim_orchestrator"
  using hand_off_chain[OF run_full] by (simp add: run_full)

theorem hand_off_cycle_counterexample:
  "Runner_run claim_orchestrator (guardrail_verdict (example_env two_lap_replies)) two_lap_replies =
     (Inr (Out_InsuranceReport merged_report),
      [Agent_turn claim_orchestrator, Agent_turn image_analysis_agent,
       Agent_turn cost_estimation_agent, Agent_turn repair_shop_agent,
       Agent_turn claim_orchestrator, Agent_turn image_analysis_agent,
       Agent_turn cost_estimation_agent, Agent_turn repair_shop_agent,
       Agent_turn claim_orchestrator])"
  by (rule run_two_laps)

section \<open>Properties of the vision tool's response\<close>






section \<open>Properties of the document-generation cell\<close>

lemma map_of_assoc_update: "map_of (assoc_update k v kvs) = (map_of kvs)(k \<mapsto> v)"
  by (induction kvs) (auto simp: fun_eq_iff)

lemma getitem_claim: "dict_getitem (model_dump r) (lit ''claim'') = Inr (dump_Claim (claim r))"
  by (simp add: model_dump_def lit_def)

lemma getitem_parts:
  "dict_getitem (dump_Claim c) (lit ''damaged_parts_list'') =
     Inr (dump_opt_str_list (Claim.damaged_parts_list c))"
  by (simp add: dump_Claim_def lit_def)

lemma get_parts:
  "dict_get (dump_Claim c) (lit ''damaged_parts_list'') dflt =
     Inr (dump_opt_str_list (Claim.damaged_parts_list c))"
  by (simp add: dump_Claim_def lit_def)

lemma py_join_strs: "py_join sep (JList (map JStr parts)) = Inr (join sep parts)"
proof -
  have "list_all is_JStr (map JStr parts)"
    by (induction parts) auto
  moreover have "map the_JStr (map JStr parts) = parts"
    by (induction parts) auto
  ultimately show ?thesis by simp
qed

lemma dict_getitem_setitem:
  "dict_setitem d k v = Inr d' \<Longrightarrow>
     dict_getitem d' k' = (if k' = k then Inr v else dict_getitem d k')"
  by (cases d) (auto simp: map_of_assoc_update)

lemma dump_Claim_dict: "\<exists>kvs. dump_Claim c = JDict kvs"
  by (simp add: dump_Claim_def)

lemma model_dump_dict: "\<exists>kvs. model_dump r = JDict kvs"
  by (simp add: model_dump_def)

lemma flatten_parts_Some:
  assumes "Claim.damaged_parts_list (claim r) = Some parts"
  shows "\<exists>claim_dict ui.
           dict_setitem (dump_Claim (claim r)) (lit ''damaged_parts_list'')
             (JStr (join (lit '', '') parts)) = Inr claim_dict \<and>
           dict_setitem (model_dump r) (lit ''claim'') claim_dict = Inr ui \<and>
           flatten_parts (model_dump r) = Inr ui"
proof -
  obtain ckvs where c: "dump_Claim (claim r) = JDict ckvs"
    using dump_Claim_dict by blast
  obtain kvs where m: "model_dump r = JDict kvs"
    using model_dump_dict by blast
  have g: "dict_getitem (JDict kvs) (lit ''claim'') = Inr (JDict ckvs)"
    using getitem_claim[of r] c m by simp
  have p: "dict_get (JDict ckvs) (lit ''damaged_parts_list'') (JList []) =
             Inr (JList (map JStr parts))"
    using get_parts[of "claim r" "JList []"] assms c by simp
  show ?thesis
    unfolding flatten_parts_def m c
    by (simp only: g p py_join_strs sum.case dict_setitem.simps) simp
qed

lemma flatten_parts_None:
  assumes "Claim.damaged_parts_list (claim r) = None"
  shows "flatten_parts (model_dump r) = Inl TypeError"
proof -
  have p: "dict_get (dump_Claim (claim r)) (lit ''damaged_parts_list'') (JList []) = Inr JNull"
    using get_parts[of "claim r" "JList []"] assms by simp
  show ?thesis
    unfolding flatten_parts_def
    by (simp only: getitem_claim p sum.case py_join.simps)
qed

text \<open>
  C8. For a report whose \<open>damaged_parts_list\<close> is a list, the cell submits one request
  that carries the template file, the destination folder and the output format \<open>pdf\<close>;
  its user input is the dumped report in which \<open>claim.damaged_parts_list\<close> is the single
  string made of the parts joined with a comma and a space, every other entry being as
  dumped.
\<close>

theorem docgen_flattens_parts:
  assumes "Claim.damaged_parts_list (claim r) = Some parts"
  shows "\<exists>doc claim_dict.
           docgen_cell ids r =
             Inr \<lparr>template_file = template_file_id ids, input_source = lit ''api'',
                  destination_folder = claim_folder_id ids, output_type = lit ''pdf'',
                  document_generation_data = [doc]\<rparr> \<and>
           dict_getitem (user_input doc) (lit ''claim'') = Inr claim_dict \<and>
           dict_getitem claim_dict (lit ''damaged_parts_list'') =
             Inr (JStr (join (lit '', '') parts)) \<and>
           (\<forall>k. k \<noteq> lit ''claim'' \<longrightarrow>
                dict_getitem (user_input doc) k = dict_getitem (model_dump r) k) \<and>
           (\<forall>k. k \<noteq> lit ''damaged_parts_list'' \<longrightarrow>
                dict_getitem claim_dict k = dict_getitem (dump_Claim (claim r)) k)"
proof -
  from flatten_parts_Some[OF assms] obtain claim_dict ui where
    s1: "dict_setitem (dump_Claim (claim r)) (lit ''damaged_parts_list'')
           (JStr (join (lit '', '') parts)) = Inr claim_dict"
    and s2: "dict_setitem (model_dump r) (lit ''claim'') claim_dict = Inr ui"
    and f: "flatten_parts (model_dump r) = Inr ui"
    by blast
  let ?doc = "\<lparr>generated_file_name =
                  lit ''Pre'' @ [8209] @ lit ''Inspection'' @ [8209] @ lit ''Report'' @
                  [8209] @ claim_number r,
                user_input = ui\<rparr>"
  have "docgen_cell ids r =
          Inr \<lparr>template_file = template_file_id ids, input_source = lit ''api'',
               destination_folder = claim_folder_id ids, output_type = lit ''pdf'',
               document_generation_data = [?doc]\<rparr>"
    by (simp add: docgen_cell_def f)
  moreover have "dict_getitem (user_input ?doc) (lit ''claim'') = Inr claim_dict"
    using dict_getitem_setitem[OF s2] by simp
  moreover have "dict_getitem claim_dict (lit ''damaged_parts_list'') =
                   Inr (JStr (join (lit '', '') parts))"
    using dict_getitem_setitem[OF s1] by simp
  moreover have "\<forall>k. k \<noteq> lit ''claim'' \<longrightarrow>
                   dict_getitem (user_input ?doc) k = dict_getitem (model_dump r) k"
    using dict_getitem_setitem[OF s2] by simp
  moreover have "\<forall>k. k \<noteq> lit ''damaged_parts_list'' \<longrightarrow>
                   dict_getitem claim_dict k = dict_getitem (dump_Claim (claim r)) k"
    using dict_getitem_setitem[OF s1] by simp
  ultimately show ?thesis
    by blast
qed

text \<open>
  C10. For a report whose \<open>claim.damaged_parts_list\<close> is \<open>None\<close> the dumped claim still has
  the key, with value \<open>None\<close>, so \<open>get\<close> returns \<open>None\<close> and not its default of an empty
  list; joining \<open>None\<close> raises a \<open>TypeError\<close> and no request is submitted. The cell submits
  a request exactly when the field is a list.
\<close>

theorem docgen_raises_without_parts_list:
  "(Claim.damaged_parts_list (claim r) = None \<longrightarrow>
      dict_getitem (model_dump r) (lit ''claim'') = Inr (dump_Claim (claim r)) \<and>
      dict_getitem (dump_Claim (claim r)) (lit ''damaged_parts_list'') = Inr JNull \<and>
      dict_get (dump_Claim (claim r)) (lit ''damaged_parts_list'') (JList []) = Inr JNull \<and>
      py_join (lit '', '') JNull = Inl TypeError \<and>
      docgen_cell ids r = Inl TypeError) \<and>
   ((\<exists>request. docgen_cell ids r = Inr request) \<longleftrightarrow>
      Claim.damaged_parts_list (claim r) \<noteq> None)"
proof -
  have none: "docgen_cell ids r = Inl TypeError" if "Claim.damaged_parts_list (claim r) = None"
    using flatten_parts_None[OF that] by (simp add: docgen_cell_def)
  have some: "\<exists>request. docgen_cell ids r = Inr request"
    if "Claim.damaged_parts_list (claim r) = Some parts" for parts
    using flatten_parts_Some[OF that] by (auto simp: docgen_cell_def)
  show ?thesis
  proof (cases "Claim.damaged_parts_list (claim r)")
    case None
    with none show ?thesis
      by (simp add: getitem_claim getitem_parts get_parts)
  next
    case (Some parts)
    with some show ?thesis
      by simp
  qed
qed

theorem docgen_flattens_parts_witness:
  "\<exists>doc claim_dict.
     docgen_cell example_ids merged_report =
       Inr \<lparr>template_file = lit ''300'', input_source = lit ''api'',
            destination_folder = lit ''102'', output_type = lit ''pdf'',
            document_generation_data = [doc]\<rparr> \<and>
     dict_getitem (user_input doc) (lit ''claim'') = Inr claim_dict \<and>
     dict_getitem claim_dict (lit ''damaged_parts_list'') =
       Inr (JStr (lit ''rear bumper, parking camera''))"
proof -
  have h: "Claim.damaged_parts_list (claim merged_report) =
             Some [lit ''rear bumper'', lit ''parking camera'']"
    by (simp add: merged_report_def)
  have j: "join (lit '', '') [lit ''rear bumper'', lit ''parking camera''] =
             lit ''rear bumper, parking camera''"
    by (simp add: lit_def)
  from docgen_flattens_parts[OF h, of example_ids] show ?thesis
    unfolding j by (auto simp: example_ids_def)
qed

theorem docgen_raises_without_parts_list_witness:
  "Claim.damaged_parts_list (claim bare_report) = None \<and>
   dict_get (dump_Claim (claim bare_report)) (lit ''damaged_parts_list'') (JList []) = Inr JNull \<and>
   docgen_cell example_ids bare_report = Inl TypeError"
proof -
  have h: "Claim.damaged_parts_list (claim bare_report) = None"
    by (simp add: bare_report_def)
  from docgen_raises_without_parts_list[of bare_report example_ids, THEN conjunct1, rule_format, OF h] h
  show ?thesis
    by simp
qed

section \<open>Properties of the customer record\<close>

lemma driver_locals:
  "parse_customer_info_file (claim_info_file e) = Inr (c, raw) \<Longrightarrow>
     locals_at_exit (process_insurance_claim e) = Some (make_locals e c raw)"
  by (simp add: process_insurance_claim_def Let_def split: sum.splits prod.splits)

lemma make_locals_customer:
  "l_customer (make_locals e c raw) = c \<and> l_raw_json (make_locals e c raw) = raw"
  by (simp add: make_locals_def Let_def)

text \<open>
  C9 (as amended). For every JSON object that has all sixteen \<open>customer_<field>\<close> keys
  with string values, \<open>parse_customer_info_file\<close> returns a \<open>Customer\<close> in which each field
  is the string under the matching key, together with the object as it was read; and when
  the driver exits, its \<open>customer\<close> and \<open>raw_json\<close> are still these values. A key whose
  value is not a string makes the call raise instead.
\<close>

theorem parse_customer_info_file_strings:
  assumes "claim_info_file e = JDict kvs"
    and "map_of kvs (lit ''customer_first_name'') = Some (JStr v1)"
    and "map_of kvs (lit ''customer_last_name'') = Some (JStr v2)"
    and "map_of kvs (lit ''customer_street_address'') = Some (JStr v3)"
    and "map_of kvs (lit ''customer_city'') = Some (JStr v4)"
    and "map_of kvs (lit ''customer_state'') = Some (JStr v5)"
    and "map_of kvs (lit ''customer_zip_code'') = Some (JStr v6)"
    and "map_of kvs (lit ''customer_phone_number'') = Some (JStr v7)"
    and "map_of kvs (lit ''customer_email'') = Some (JStr v8)"
    and "map_of kvs (lit ''customer_car_year'') = Some (JStr v9)"
    and "map_of kvs (lit ''customer_car_make'') = Some (JStr v10)"
    and "map_of kvs (lit ''customer_car_model'') = Some (JStr v11)"
    and "map_of kvs (lit ''customer_vin'') = Some (JStr v12)"
    and "map_of kvs (lit ''customer_license_plate'') = Some (JStr v13)"
    and "map_of kvs (lit ''customer_car_mileage'') = Some (JStr v14)"
    and "map_of kvs (lit ''customer_car_color'') = Some (JStr v15)"
    and "map_of kvs (lit ''customer_policy_number'') = Some (JStr v16)"
  shows "parse_customer_info_file (JDict kvs) =
           Inr (\<lparr>first_name = v1, last_name = v2, street_address = v3, city = v4, state = v5,
      zip_code = v6, phone_number = v7, email = v8, car_year = v9, car_make = v10,
      car_model = v11, vin = v12, license_plate = v13, car_mileage = v14, car_color =
      v15, policy_number = v16\<rparr>, JDict kvs) \<and>
         (\<exists>l. locals_at_exit (process_insurance_claim e) = Some l \<and>
              l_customer l =
                \<lparr>first_name = v1, last_name = v2, street_address = v3, city = v4, state = v5,
      zip_code = v6, phone_number = v7, email = v8, car_year = v9, car_make = v10,
      car_model = v11, vin = v12, license_plate = v13, car_mileage = v14, car_color =
      v15, policy_number = v16\<rparr> \<and>
              l_raw_json l = JDict kvs)"
proof -
  have p: "parse_customer_info_file (JDict kvs) =
           Inr (\<lparr>first_name = v1, last_name = v2, street_address = v3, city = v4, state = v5,
      zip_code = v6, phone_number = v7, email = v8, car_year = v9, car_make = v10,
      car_model = v11, vin = v12, license_plate = v13, car_mileage = v14, car_color =
      v15, policy_number = v16\<rparr>, JDict kvs)"
    using assms(2-)
    by (simp add: parse_customer_info_file_def customer_fields_def Customer_init_def
        kwarg_def lit_def)
  then have "parse_customer_info_file (claim_info_file e) =
           Inr (\<lparr>first_name = v1, last_name = v2, street_address = v3, city = v4, state = v5,
      zip_code = v6, phone_number = v7, email = v8, car_year = v9, car_make = v10,
      car_model = v11, vin = v12, license_plate = v13, car_mileage = v14, car_color =
      v15, policy_number = v16\<rparr>, JDict kvs)"
    using assms(1) by simp
  from driver_locals[OF this] p show ?thesis
    by (simp add: make_locals_customer)
qed

theorem parse_customer_info_file_strings_witness:
  "parse_customer_info_file (JDict example_entries) = Inr (example_customer, JDict example_entries) \<and>
   map_option l_customer (locals_at_exit (process_insurance_claim (example_env full_replies))) =
     Some example_customer"
proof -
  have f: "claim_info_file (example_env full_replies) = JDict example_entries"
    by (simp add: example_env_def)
  have "parse_customer_info_file (JDict example_entries) =
           Inr (example_customer, JDict example_entries) \<and>
         (\<exists>l. locals_at_exit (process_insurance_claim (example_env full_replies)) = Some l \<and>
              l_customer l = example_customer \<and> l_raw_json l = JDict example_entries)"
    unfolding example_customer_def
    by (rule parse_customer_info_file_strings[OF f])
       (simp_all add: example_entries_def lit_def)
  then show ?thesis
    by auto
qed

theorem null_field_rejected_counterexample:
  "list_all (\<lambda>field. lit ''customer_'' @ lit field \<in> fst ` set null_vin_entries) customer_fields \<and>
   parse_customer_info_file (JDict null_vin_entries) = Inl ValidationError"
  by (simp add: parse_customer_info_file_def null_vin_entries_def example_entries_def
      customer_fields_def Customer_init_def kwarg_def lit_def)

end
